theory Spec2Isabelle
  imports Complex_Main
begin

section \<open>JavaScript values\<close>

text \<open>
  The component of \<^verbatim>\<open>src/tic_tac_frontend/src/App.js\<close> stores what the server sends
  without looking at its shape, so the state holds arbitrary JavaScript values. A number
  is a double: a finite one is the rational it denotes, minus zero and the infinities
  (which \<^verbatim>\<open>JSON.parse\<close> yields for \<^verbatim>\<open>-0\<close> and \<^verbatim>\<open>1e999\<close>) are values of
  their own. NaN does not occur: \<^verbatim>\<open>JSON.parse\<close> never yields it and the component does
  no arithmetic.
\<close>

datatype number = Fin rat | NegZero | PosInfinity | NegInfinity

datatype jv =
    JUndefined
  | JNull
  | JBool bool
  | JNum number
  | JStr string
  | JArr "jv list"
  | JObj "(string \<times> jv) list"

text \<open>The truth value JavaScript gives a value in \<^verbatim>\<open>if (v)\<close>, \<^verbatim>\<open>!v\<close> and \<^verbatim>\<open>v || w\<close>.\<close>

fun truthy :: "jv \<Rightarrow> bool" where
  "truthy JUndefined = False"
| "truthy JNull = False"
| "truthy (JBool b) = b"
| "truthy (JNum n) = (n \<noteq> Fin 0 \<and> n \<noteq> NegZero)"
| "truthy (JStr s) = (s \<noteq> [])"
| "truthy (JArr xs) = True"
| "truthy (JObj kvs) = True"

text \<open>\<^verbatim>\<open>a || b\<close>\<close>

definition js_or :: "jv \<Rightarrow> jv \<Rightarrow> jv" where
  "js_or a b = (if truthy a then a else b)"

text \<open>
  \<^verbatim>\<open>v.k\<close> for a value that is neither \<^verbatim>\<open>null\<close> nor \<^verbatim>\<open>undefined\<close>, and for the property
  names the component reads (\<^verbatim>\<open>board\<close>, \<^verbatim>\<open>current_player\<close>, \<^verbatim>\<open>status\<close>, \<^verbatim>\<open>winner\<close>,
  \<^verbatim>\<open>moves\<close>, \<^verbatim>\<open>id\<close>, \<^verbatim>\<open>valid\<close>, \<^verbatim>\<open>state\<close>, \<^verbatim>\<open>error\<close>): an object gives the
  property's value, or \<^verbatim>\<open>undefined\<close> when it has none; booleans, numbers, strings
  and arrays have no property of these names. The list of an object holds its own
  properties, one per key, as \<^verbatim>\<open>JSON.parse\<close> builds them.
\<close>

fun js_get :: "jv \<Rightarrow> string \<Rightarrow> jv" where
  "js_get (JObj kvs) k = (case map_of kvs k of Some v \<Rightarrow> v | None \<Rightarrow> JUndefined)"
| "js_get v k = JUndefined"

definition nullish :: "jv \<Rightarrow> bool" where
  "nullish v = (v = JNull \<or> v = JUndefined)"

text \<open>
  Reading a property of \<^verbatim>\<open>null\<close> or \<^verbatim>\<open>undefined\<close> throws a TypeError. Its message is
  the engine's; this is V8's wording. The component shows the message and never
  inspects it.
\<close>

definition type_error :: "jv \<Rightarrow> string \<Rightarrow> string" where
  "type_error v k =
     ''Cannot read properties of '' @ (if v = JNull then ''null'' else ''undefined'')
       @ '' (reading '' @ [CHR 0x27] @ k @ [CHR 0x27] @ '')''"

text \<open>A template literal prints a status code in decimal.\<close>

definition digit :: "nat \<Rightarrow> char" where
  "digit n = ''0123456789'' ! n"

fun decimal :: "nat \<Rightarrow> string" where
  "decimal n = (if n < 10 then [digit n] else decimal (n div 10) @ [digit (n mod 10)])"

declare decimal.simps [simp del]

section \<open>The state of the component\<close>

text \<open>
  The \<^verbatim>\<open>useState\<close> cells of \<^verbatim>\<open>App\<close> (lines 171 to 181). \<^verbatim>\<open>loading\<close> is only ever set
  to \<^verbatim>\<open>true\<close> or \<^verbatim>\<open>false\<close>; \<^verbatim>\<open>pollInterval\<close> is \<^verbatim>\<open>null\<close> or an interval id, which
  is a positive integer in a browser and so truthy.
\<close>

type_synonym timer = nat

record view_state =
  gameId :: jv
  board :: jv
  currentPlayer :: jv
  status :: jv
  winner :: jv
  moves :: jv
  loading :: bool
  error :: jv
  pollInterval :: "timer option"

definition empty_row :: jv where
  "empty_row = JArr [JStr [], JStr [], JStr []]"

definition initial_state :: view_state where
  "initial_state =
     \<lparr> gameId = JNull,
       board = JArr [empty_row, empty_row, empty_row],
       currentPlayer = JStr ''X'',
       status = JStr ''ongoing'',
       winner = JNull,
       moves = JNum (Fin 0),
       loading = False,
       error = JStr [],
       pollInterval = None \<rparr>"

section \<open>Requests and responses\<close>

text \<open>
  The three requests: \<^verbatim>\<open>POST /game\<close>, \<^verbatim>\<open>GET /game/${gid}\<close> and \<^verbatim>\<open>POST /move\<close> with
  the body \<^verbatim>\<open>{game_id, row, col}\<close>.
\<close>

datatype request = PostGame | GetGame jv | PostMove jv nat nat

text \<open>
  What an \<^verbatim>\<open>await fetch(...)\<close> followed by \<^verbatim>\<open>await res.json()\<close> can meet: the fetch
  rejects (the error's message is given), or a response arrives with a status code and
  a body that \<^verbatim>\<open>res.json()\<close> either rejects (again with a message) or parses.
\<close>

datatype body = NotJson string | Json jv

datatype response = NetworkError string | Http nat body

text \<open>\<^verbatim>\<open>res.ok\<close>\<close>

definition ok :: "nat \<Rightarrow> bool" where
  "ok code = (200 \<le> code \<and> code \<le> 299)"

text \<open>
  The lines the three handlers share:
  \<^verbatim>\<open>const res = await fetch(...); if (!res.ok) throw new Error(msg); const data = await res.json();\<close>
  The result is \<open>Inl\<close> the message of the error thrown, or \<open>Inr\<close> the parsed data.
\<close>

definition fetched :: "(nat \<Rightarrow> string) \<Rightarrow> response \<Rightarrow> string + jv" where
  "fetched msg r =
     (case r of
        NetworkError m \<Rightarrow> Inl m
      | Http code b \<Rightarrow>
          if \<not> ok code then Inl (msg code)
          else (case b of NotJson m \<Rightarrow> Inl m | Json data \<Rightarrow> Inr data))"

text \<open>\<^verbatim>\<open>setError(err.message || fallback)\<close>\<close>

definition message_or :: "string \<Rightarrow> string \<Rightarrow> jv" where
  "message_or m fallback = JStr (if m = [] then fallback else m)"

section \<open>The handlers\<close>

text \<open>
  An \<^verbatim>\<open>async\<close> handler runs to its first \<^verbatim>\<open>await\<close>, where the request leaves, and
  resumes when the response is there. Each handler is therefore two functions: \<open>_start\<close>
  gives the state after the synchronous part and the request dispatched (\<open>None\<close> when
  the handler returned before dispatching), \<open>_resume\<close> gives the state after the rest
  has run on a response. The setters store values that do not depend on the state, so
  the rest applies to whatever state the component is in when the response arrives.

  Once the request has left, each \<^verbatim>\<open>throw\<close> of a \<^verbatim>\<open>try\<close> block comes before the
  block's next setter, so a \<open>_try\<close> function is \<open>Inl\<close> the message of the error
  thrown, with no setter run, or \<open>Inr\<close> the state after the setters of the block.
\<close>

subsection \<open>fetchGameState (lines 184 to 205)\<close>


definition fetchGameState_try :: "response \<Rightarrow> view_state \<Rightarrow> string + view_state" where
  "fetchGameState_try r s =
     (case fetched (\<lambda>code. ''Failed to fetch game state'') r of
        Inl m \<Rightarrow> Inl m
      | Inr data \<Rightarrow>
          if nullish data then Inl (type_error data ''board'')
          else if truthy (js_get data ''board'') then
            Inr (s\<lparr>board := js_get data ''board'',
                   currentPlayer := js_get data ''current_player'',
                   status := js_get data ''status'',
                   winner := js_get data ''winner'',
                   moves := js_get data ''moves'',
                   gameId := js_get data ''id'',
                   error := JStr []\<rparr>)
          else Inr s)"

definition fetchGameState_resume :: "response \<Rightarrow> view_state \<Rightarrow> view_state" where
  "fetchGameState_resume r s =
     (case fetchGameState_try r s of
        Inl m \<Rightarrow> s\<lparr>error := message_or m ''Could not fetch game state''\<rparr>
      | Inr s' \<Rightarrow> s')
     \<lparr>loading := False\<rparr>"

subsection \<open>startNewGame (lines 208 to 227)\<close>

definition startNewGame_start :: "view_state \<Rightarrow> view_state \<times> request" where
  "startNewGame_start s = (s\<lparr>loading := True, error := JStr []\<rparr>, PostGame)"

definition startNewGame_try :: "response \<Rightarrow> view_state \<Rightarrow> string + view_state" where
  "startNewGame_try r s =
     (case fetched (\<lambda>code. ''Failed to start new game'') r of
        Inl m \<Rightarrow> Inl m
      | Inr data \<Rightarrow>
          if nullish data then Inl (type_error data ''id'')
          else
            Inr (s\<lparr>gameId := js_get data ''id'',
                   board := js_get data ''board'',
                   currentPlayer := js_get data ''current_player'',
                   status := js_get data ''status'',
                   winner := js_or (js_get data ''winner'') JNull,
                   moves := js_or (js_get data ''moves'') (JNum (Fin 0)),
                   error := JStr []\<rparr>))"

definition startNewGame_resume :: "response \<Rightarrow> view_state \<Rightarrow> view_state" where
  "startNewGame_resume r s =
     (case startNewGame_try r s of
        Inl m \<Rightarrow> s\<lparr>error := message_or m ''Could not start a new game''\<rparr>
      | Inr s' \<Rightarrow> s')
     \<lparr>loading := False\<rparr>"

subsection \<open>handleCellClick (lines 230 to 258)\<close>

definition handleCellClick_start ::
  "nat \<Rightarrow> nat \<Rightarrow> view_state \<Rightarrow> view_state \<times> request option" where
  "handleCellClick_start r c s =
     (if status s \<noteq> JStr ''ongoing'' \<or> \<not> truthy (gameId s) then (s, None)
      else (s\<lparr>loading := True, error := JStr []\<rparr>, Some (PostMove (gameId s) r c)))"

definition move_failed :: "nat \<Rightarrow> string" where
  "move_failed code = ''Move failed ('' @ decimal code @ '')''"

definition handleCellClick_try :: "response \<Rightarrow> view_state \<Rightarrow> string + view_state" where
  "handleCellClick_try res s =
     (case fetched move_failed res of
        Inl m \<Rightarrow> Inl m
      | Inr data \<Rightarrow>
          if nullish data then Inl (type_error data ''valid'')
          else if truthy (js_get data ''valid'') \<and> truthy (js_get data ''state'') then
            Inr (s\<lparr>board := js_get (js_get data ''state'') ''board'',
                   currentPlayer := js_get (js_get data ''state'') ''current_player'',
                   status := js_get (js_get data ''state'') ''status'',
                   winner := js_or (js_get (js_get data ''state'') ''winner'') JNull,
                   moves := js_get (js_get data ''state'') ''moves'',
                   error := JStr []\<rparr>)
          else Inr (s\<lparr>error := js_or (js_get data ''error'') (JStr ''Illegal move'')\<rparr>))"

definition handleCellClick_resume :: "response \<Rightarrow> view_state \<Rightarrow> view_state" where
  "handleCellClick_resume res s =
     (case handleCellClick_try res s of
        Inl m \<Rightarrow> s\<lparr>error := message_or m ''Could not submit move''\<rparr>
      | Inr s' \<Rightarrow> s')
     \<lparr>loading := False\<rparr>"

subsection \<open>A click on a cell of the board (lines 30 to 35 and 334 to 339)\<close>

text \<open>
  \<^verbatim>\<open>Board\<close> renders one button per cell of \<^verbatim>\<open>board\<close>, disabled when
  \<^verbatim>\<open>status !== 'ongoing' || loading\<close> or the cell is not the empty string; the button of
  cell \<open>(r, c)\<close> calls \<^verbatim>\<open>handleCellClick(r, c)\<close>. A disabled button, and a cell the board
  does not have, give no click.
\<close>

definition cell_at :: "jv \<Rightarrow> nat \<Rightarrow> nat \<Rightarrow> jv option" where
  "cell_at b r c =
     (case b of
        JArr rows \<Rightarrow>
          if r < length rows then
            (case rows ! r of
               JArr cells \<Rightarrow> if c < length cells then Some (cells ! c) else None
             | _ \<Rightarrow> None)
          else None
      | _ \<Rightarrow> None)"

definition click_cell :: "nat \<Rightarrow> nat \<Rightarrow> view_state \<Rightarrow> view_state \<times> request option" where
  "click_cell r c s =
     (case cell_at (board s) r c of
        None \<Rightarrow> (s, None)
      | Some cell \<Rightarrow>
          if (status s \<noteq> JStr ''ongoing'' \<or> loading s) \<or> cell \<noteq> JStr [] then (s, None)
          else handleCellClick_start r c s)"

section \<open>The polling effect (lines 261 to 279)\<close>

text \<open>
  Beside the state, the running component has its live intervals (each with the game
  id its callback passes to \<^verbatim>\<open>fetchGameState\<close>), the next interval id, and, of the
  last run of the polling effect, the dependencies and the timer that the cleanup it
  returned clears (\<open>None\<close> when it returned no cleanup). Of the dependencies
  \<^verbatim>\<open>[gameId, status, fetchGameState, pollInterval]\<close>, \<^verbatim>\<open>fetchGameState\<close> is a
  \<^verbatim>\<open>useCallback\<close> on \<^verbatim>\<open>[gameId]\<close> and changes exactly when \<^verbatim>\<open>gameId\<close> does.
  React compares dependencies with \<^verbatim>\<open>Object.is\<close>, which on strings, numbers, booleans,
  \<^verbatim>\<open>null\<close> and \<^verbatim>\<open>undefined\<close> is equality of values, as here; a game id or status
  that is an array or an object is compared by identity there and by value here.
\<close>

record runtime =
  view :: view_state
  timers :: "(timer \<times> jv) list"
  next_timer :: timer
  effect_deps :: "(jv \<times> jv \<times> timer option) option"
  effect_cleanup :: "timer option"

definition clearInterval :: "timer \<Rightarrow> (timer \<times> jv) list \<Rightarrow> (timer \<times> jv) list" where
  "clearInterval h ts = filter (\<lambda>(i, g). i \<noteq> h) ts"

text \<open>One run of the effect's body.\<close>

definition poll_effect :: "runtime \<Rightarrow> runtime" where
  "poll_effect rt =
     (let v = view rt in
      if \<not> truthy (gameId v) \<or> status v \<noteq> JStr ''ongoing'' then
        rt\<lparr>timers := (case pollInterval v of
                         Some h \<Rightarrow> clearInterval h (timers rt)
                       | None \<Rightarrow> timers rt),
           view := v\<lparr>pollInterval := None\<rparr>,
           effect_cleanup := None\<rparr>
      else
        (case pollInterval v of
           None \<Rightarrow>
             rt\<lparr>timers := timers rt @ [(next_timer rt, gameId v)],
                next_timer := Suc (next_timer rt),
                view := v\<lparr>pollInterval := Some (next_timer rt)\<rparr>,
                effect_cleanup := Some (next_timer rt)\<rparr>
         | Some h \<Rightarrow> rt\<lparr>effect_cleanup := Some h\<rparr>))"

definition run_cleanup :: "runtime \<Rightarrow> runtime" where
  "run_cleanup rt =
     (case effect_cleanup rt of
        None \<Rightarrow> rt
      | Some h \<Rightarrow> rt\<lparr>timers := clearInterval h (timers rt)\<rparr>)"

text \<open>
  A render is committed: when a dependency differs from the last run's, React runs the
  cleanup of the last run and then the effect again.
\<close>

definition commit :: "runtime \<Rightarrow> runtime" where
  "commit rt =
     (let d = (gameId (view rt), status (view rt), pollInterval (view rt)) in
      if effect_deps rt = Some d then rt
      else poll_effect ((run_cleanup rt)\<lparr>effect_deps := Some d\<rparr>))"

text \<open>
  The effect sets state itself, which renders again: commits repeat until one leaves
  the state as it was. The fuel bounds the number of commits; \<open>None\<close> is running out.
\<close>

fun settle :: "nat \<Rightarrow> runtime \<Rightarrow> runtime option" where
  "settle 0 rt = None"
| "settle (Suc n) rt =
     (let rt' = commit rt in
      if view rt' = view rt then Some rt' else settle n rt')"

text \<open>
  Mounting: the first commit runs the polling effect and then the mount effect
  (lines 282 to 285), which calls \<^verbatim>\<open>startNewGame()\<close>.
\<close>

definition mount :: "runtime option" where
  "mount =
     (case settle 3 \<lparr> view = initial_state, timers = [], next_timer = 1,
                      effect_deps = None, effect_cleanup = None \<rparr> of
        None \<Rightarrow> None
      | Some rt \<Rightarrow> settle 3 (rt\<lparr>view := fst (startNewGame_start (view rt))\<rparr>))"

text \<open>A response to a create request arrives and the renders it causes are committed.\<close>

definition created :: "response \<Rightarrow> runtime \<Rightarrow> runtime option" where
  "created r rt = settle 3 (rt\<lparr>view := startNewGame_resume r (view rt)\<rparr>)"

section \<open>The component and its events\<close>











section \<open>Runs\<close>

text \<open>
  The fields of the session, as against \<^verbatim>\<open>loading\<close>, \<^verbatim>\<open>error\<close> and the timer handle.
\<close>

definition session :: "view_state \<Rightarrow> jv \<times> jv \<times> jv \<times> jv \<times> jv \<times> jv" where
  "session s = (gameId s, board s, currentPlayer s, status s, winner s, moves s)"

definition row3 :: "string \<Rightarrow> string \<Rightarrow> string \<Rightarrow> jv" where
  "row3 a b c = JArr [JStr a, JStr b, JStr c]"

text \<open>
  \<^verbatim>\<open>{id: "g1", board: [["","",""],["","",""],["","",""]], current_player: "X", status: "ongoing", moves: 0}\<close>
  with status 200.
\<close>

definition created_g1 :: response where
  "created_g1 =
     Http 200 (Json (JObj
       [(''id'', JStr ''g1''),
        (''board'', JArr [row3 [] [] [], row3 [] [] [], row3 [] [] []]),
        (''current_player'', JStr ''X''),
        (''status'', JStr ''ongoing''),
        (''moves'', JNum (Fin 0))]))"

text \<open>
  \<^verbatim>\<open>{valid: true, state: {board: [["","",""],["","X",""],["","",""]], current_player: "O", status: "ongoing", moves: 1}}\<close>
  with status 200.
\<close>

definition moved_center :: response where
  "moved_center =
     Http 200 (Json (JObj
       [(''valid'', JBool True),
        (''state'', JObj
           [(''board'', JArr [row3 [] [] [], row3 [] ''X'' [], row3 [] [] []]),
            (''current_player'', JStr ''O''),
            (''status'', JStr ''ongoing''),
            (''moves'', JNum (Fin 1))])]))"

text \<open>
  New Game is called in a state \<open>s\<close> and answered by \<open>created_g1\<close>; then the centre cell
  is clicked and the move is answered by \<open>moved_center\<close>.
\<close>

definition create_g1 :: "view_state \<Rightarrow> view_state" where
  "create_g1 s = startNewGame_resume created_g1 (fst (startNewGame_start s))"

definition create_then_move :: "view_state \<Rightarrow> view_state" where
  "create_then_move s =
     handleCellClick_resume moved_center (fst (handleCellClick_start 1 1 (create_g1 s)))"

text \<open>The state while the create request of the mount effect is in flight.\<close>

definition creating :: view_state where
  "creating = fst (startNewGame_start initial_state)"

text \<open>The game \<^verbatim>\<open>g1\<close> after mounting, and the same with a move at (1,1) in flight.\<close>

definition playing :: view_state where
  "playing = create_g1 initial_state"

definition busy :: view_state where
  "busy = fst (handleCellClick_start 1 1 playing)"

text \<open>\<^verbatim>\<open>{valid: false, error: "Illegal move"}\<close> with status 200, and the state it leaves.\<close>

definition illegal :: response where
  "illegal = Http 200 (Json (JObj [(''valid'', JBool False), (''error'', JStr ''Illegal move'')]))"

definition rejected :: view_state where
  "rejected = handleCellClick_resume illegal busy"


text \<open>Bodies that are JSON and not of the expected shape, with status 200.\<close>

definition empty_object :: response where
  "empty_object = Http 200 (Json (JObj []))"

definition null_body :: response where
  "null_body = Http 200 (Json JNull)"




text \<open>\<^verbatim>\<open>{valid: true, state: 5}\<close> with status 200.\<close>

definition wrong_shape :: response where
  "wrong_shape = Http 200 (Json (JObj [(''valid'', JBool True), (''state'', JNum (Fin 5))]))"

section \<open>Evaluation lemmas\<close>

lemma message_or_truthy: "fallback \<noteq> [] \<Longrightarrow> truthy (message_or m fallback)"
  by (simp add: message_or_def)

lemma type_error_not_empty: "type_error v k \<noteq> []"
  by (simp add: type_error_def)

lemma move_failed_not_empty: "move_failed code \<noteq> []"
  by (simp add: move_failed_def)

lemma create_g1_eq:
  "create_g1 s =
     s\<lparr>gameId := JStr ''g1'',
       board := JArr [row3 [] [] [], row3 [] [] [], row3 [] [] []],
       currentPlayer := JStr ''X'',
       status := JStr ''ongoing'',
       winner := JNull,
       moves := JNum (Fin 0),
       loading := False,
       error := JStr []\<rparr>"
  by (simp add: create_g1_def startNewGame_resume_def startNewGame_try_def startNewGame_start_def
      created_g1_def fetched_def ok_def nullish_def js_or_def)

lemma fetched_NetworkError: "fetched msg (NetworkError m) = Inl m"
  by (simp add: fetched_def)

lemma fetched_not_ok: "\<not> ok code \<Longrightarrow> fetched msg (Http code b) = Inl (msg code)"
  by (simp add: fetched_def)

lemma fetched_NotJson: "ok code \<Longrightarrow> fetched msg (Http code (NotJson m)) = Inl m"
  by (simp add: fetched_def)

lemma fetched_Json: "ok code \<Longrightarrow> fetched msg (Http code (Json data)) = Inr data"
  by (simp add: fetched_def)

lemma fetchGameState_resume_thrown:
  "fetched (\<lambda>code. ''Failed to fetch game state'') r = Inl m \<Longrightarrow>
   fetchGameState_resume r s =
     s\<lparr>error := message_or m ''Could not fetch game state'', loading := False\<rparr>"
  by (simp add: fetchGameState_resume_def fetchGameState_try_def)

lemma fetchGameState_resume_nullish:
  "fetched (\<lambda>code. ''Failed to fetch game state'') r = Inr data \<Longrightarrow> nullish data \<Longrightarrow>
   fetchGameState_resume r s =
     s\<lparr>error := JStr (type_error data ''board''), loading := False\<rparr>"
  by (simp add: fetchGameState_resume_def fetchGameState_try_def message_or_def
      type_error_not_empty)

lemma fetchGameState_resume_no_board:
  "fetched (\<lambda>code. ''Failed to fetch game state'') r = Inr data \<Longrightarrow> \<not> nullish data \<Longrightarrow>
   \<not> truthy (js_get data ''board'') \<Longrightarrow>
   fetchGameState_resume r s = s\<lparr>loading := False\<rparr>"
  by (simp add: fetchGameState_resume_def fetchGameState_try_def)

lemma fetchGameState_resume_board:
  "fetched (\<lambda>code. ''Failed to fetch game state'') r = Inr data \<Longrightarrow> \<not> nullish data \<Longrightarrow>
   truthy (js_get data ''board'') \<Longrightarrow>
   fetchGameState_resume r s =
     s\<lparr>board := js_get data ''board'',
       currentPlayer := js_get data ''current_player'',
       status := js_get data ''status'',
       winner := js_get data ''winner'',
       moves := js_get data ''moves'',
       gameId := js_get data ''id'',
       error := JStr [],
       loading := False\<rparr>"
  by (simp add: fetchGameState_resume_def fetchGameState_try_def)

lemma startNewGame_resume_thrown:
  "fetched (\<lambda>code. ''Failed to start new game'') r = Inl m \<Longrightarrow>
   startNewGame_resume r s =
     s\<lparr>error := message_or m ''Could not start a new game'', loading := False\<rparr>"
  by (simp add: startNewGame_resume_def startNewGame_try_def)

lemma startNewGame_resume_nullish:
  "fetched (\<lambda>code. ''Failed to start new game'') r = Inr data \<Longrightarrow> nullish data \<Longrightarrow>
   startNewGame_resume r s =
     s\<lparr>error := JStr (type_error data ''id''), loading := False\<rparr>"
  by (simp add: startNewGame_resume_def startNewGame_try_def message_or_def
      type_error_not_empty)


lemma handleCellClick_resume_thrown:
  "fetched move_failed res = Inl m \<Longrightarrow>
   handleCellClick_resume res s =
     s\<lparr>error := message_or m ''Could not submit move'', loading := False\<rparr>"
  by (simp add: handleCellClick_resume_def handleCellClick_try_def)

lemma handleCellClick_resume_nullish:
  "fetched move_failed res = Inr data \<Longrightarrow> nullish data \<Longrightarrow>
   handleCellClick_resume res s =
     s\<lparr>error := JStr (type_error data ''valid''), loading := False\<rparr>"
  by (simp add: handleCellClick_resume_def handleCellClick_try_def message_or_def
      type_error_not_empty)

lemma handleCellClick_resume_rejected:
  "fetched move_failed res = Inr data \<Longrightarrow> \<not> nullish data \<Longrightarrow>
   \<not> (truthy (js_get data ''valid'') \<and> truthy (js_get data ''state'')) \<Longrightarrow>
   handleCellClick_resume res s =
     s\<lparr>error := js_or (js_get data ''error'') (JStr ''Illegal move''), loading := False\<rparr>"
  by (auto simp add: handleCellClick_resume_def handleCellClick_try_def)

lemma handleCellClick_resume_accepted:
  "fetched move_failed res = Inr data \<Longrightarrow> \<not> nullish data \<Longrightarrow>
   truthy (js_get data ''valid'') \<Longrightarrow> truthy (js_get data ''state'') \<Longrightarrow>
   handleCellClick_resume res s =
     s\<lparr>board := js_get (js_get data ''state'') ''board'',
       currentPlayer := js_get (js_get data ''state'') ''current_player'',
       status := js_get (js_get data ''state'') ''status'',
       winner := js_or (js_get (js_get data ''state'') ''winner'') JNull,
       moves := js_get (js_get data ''state'') ''moves'',
       error := JStr [],
       loading := False\<rparr>"
  by (simp add: handleCellClick_resume_def handleCellClick_try_def)

lemma js_or_truthy: "truthy b \<Longrightarrow> truthy (js_or a b)"
  by (simp add: js_or_def)

lemma playing_eq:
  "playing =
     \<lparr> gameId = JStr ''g1'',
       board = JArr [row3 [] [] [], row3 [] [] [], row3 [] [] []],
       currentPlayer = JStr ''X'',
       status = JStr ''ongoing'',
       winner = JNull,
       moves = JNum (Fin 0),
       loading = False,
       error = JStr [],
       pollInterval = None \<rparr>"
  by (simp add: playing_def create_g1_eq initial_state_def)

lemma busy_eq: "busy = playing\<lparr>loading := True\<rparr>"
  by (simp add: busy_def handleCellClick_start_def playing_eq)

lemma decimal_500: "decimal 500 = ''500''"
  by (simp add: decimal.simps digit_def)

lemma rejected_eq: "rejected = playing\<lparr>error := JStr ''Illegal move''\<rparr>"
  by (simp add: rejected_def handleCellClick_resume_def handleCellClick_try_def illegal_def
      fetched_def ok_def nullish_def js_or_def busy_eq playing_eq)

lemma nullish_JNull: "nullish JNull"
  by (simp add: nullish_def)

lemma clearInterval_append:
  "clearInterval h (ts @ [(h, g)]) = clearInterval h ts"
  by (simp add: clearInterval_def)

lemma clearInterval_absent: "h \<notin> fst ` set (clearInterval h ts)"
  by (auto simp add: clearInterval_def)

lemma pollInterval_update_differs:
  "pollInterval v = None \<Longrightarrow> v\<lparr>pollInterval := Some h\<rparr> \<noteq> v"
proof
  assume none: "pollInterval v = None" and same: "v\<lparr>pollInterval := Some h\<rparr> = v"
  from same have "pollInterval (v\<lparr>pollInterval := Some h\<rparr>) = pollInterval v"
    by simp
  with none show False
    by simp
qed

lemma commit_creates_timer:
  assumes "truthy (gameId (view rt))" and "status (view rt) = JStr ''ongoing''"
    and "pollInterval (view rt) = None"
    and "effect_deps rt \<noteq> Some (gameId (view rt), status (view rt), None)"
  shows "commit rt =
     rt\<lparr>timers := timers (run_cleanup rt) @ [(next_timer rt, gameId (view rt))],
        next_timer := Suc (next_timer rt),
        view := (view rt)\<lparr>pollInterval := Some (next_timer rt)\<rparr>,
        effect_deps := Some (gameId (view rt), status (view rt), None),
        effect_cleanup := Some (next_timer rt)\<rparr>"
  using assms
  by (simp add: commit_def poll_effect_def run_cleanup_def Let_def split: option.split)

lemma commit_clears_own_timer:
  assumes "truthy (gameId (view rt))" and "status (view rt) = JStr ''ongoing''"
    and "pollInterval (view rt) = Some h" and "effect_cleanup rt = Some h"
    and "effect_deps rt = Some (gameId (view rt), status (view rt), None)"
  shows "commit rt =
     rt\<lparr>timers := clearInterval h (timers rt),
        effect_deps := Some (gameId (view rt), status (view rt), Some h)\<rparr>"
  using assms
  by (simp add: commit_def poll_effect_def run_cleanup_def Let_def)

lemma mount_eq:
  "mount = Some \<lparr> view = creating, timers = [], next_timer = 1,
                  effect_deps = Some (JNull, JStr ''ongoing'', None), effect_cleanup = None \<rparr>"
  by (simp add: mount_def numeral_3_eq_3 commit_def poll_effect_def run_cleanup_def Let_def
      initial_state_def creating_def startNewGame_start_def)

lemma commit_same_deps:
  "effect_deps rt = Some (gameId (view rt), status (view rt), pollInterval (view rt)) \<Longrightarrow>
   commit rt = rt"
  by (simp add: commit_def)

lemma commit_stops_timer:
  assumes "effect_deps rt \<noteq> Some (gameId (view rt), status (view rt), pollInterval (view rt))"
    and "\<not> truthy (gameId (view rt)) \<or> status (view rt) \<noteq> JStr ''ongoing''"
  shows "commit rt =
     rt\<lparr>timers := (case pollInterval (view rt) of
                      Some h \<Rightarrow> clearInterval h (timers (run_cleanup rt))
                    | None \<Rightarrow> timers (run_cleanup rt)),
        view := (view rt)\<lparr>pollInterval := None\<rparr>,
        effect_deps := Some (gameId (view rt), status (view rt), pollInterval (view rt)),
        effect_cleanup := None\<rparr>"
  using assms
  by (auto simp add: commit_def poll_effect_def Let_def run_cleanup_def split: option.split)

lemma commit_keeps_handle:
  assumes "effect_deps rt \<noteq> Some (gameId (view rt), status (view rt), Some h)"
    and "truthy (gameId (view rt))" and "status (view rt) = JStr ''ongoing''"
    and "pollInterval (view rt) = Some h"
  shows "commit rt =
     rt\<lparr>timers := timers (run_cleanup rt),
        effect_deps := Some (gameId (view rt), status (view rt), Some h),
        effect_cleanup := Some h\<rparr>"
  using assms
  by (auto simp add: commit_def poll_effect_def Let_def run_cleanup_def split: option.split)

lemma run_cleanup_no_timers: "timers rt = [] \<Longrightarrow> timers (run_cleanup rt) = []"
  by (simp add: run_cleanup_def clearInterval_def split: option.split)

lemma clearInterval_Nil: "clearInterval h [] = []"
  by (simp add: clearInterval_def)

lemma commit_twice:
  "view (commit (commit rt)) = view (commit rt)
   \<and> (timers rt = [] \<longrightarrow> timers (commit (commit rt)) = [])
   \<and> (timers rt = [] \<and> view (commit rt) = view rt \<longrightarrow> timers (commit rt) = [])"
proof (cases "effect_deps rt = Some (gameId (view rt), status (view rt), pollInterval (view rt))")
  case True
  then show ?thesis
    by (simp add: commit_same_deps)
next
  case changed: False
  show ?thesis
  proof (cases "\<not> truthy (gameId (view rt)) \<or> status (view rt) \<noteq> JStr ''ongoing''")
    case idle: True
    note first = commit_stops_timer [OF changed idle]
    show ?thesis
    proof (cases "pollInterval (view rt)")
      case None
      have second: "commit (commit rt) = commit rt"
        by (rule commit_same_deps) (simp add: first None)
      have "timers rt = [] \<Longrightarrow> timers (commit rt) = []"
        by (simp add: first None run_cleanup_no_timers)
      with second show ?thesis
        by simp
    next
      case (Some h)
      have "commit (commit rt) =
          (commit rt)\<lparr>timers := (case pollInterval (view (commit rt)) of
                            Some h \<Rightarrow> clearInterval h (timers (run_cleanup (commit rt)))
                          | None \<Rightarrow> timers (run_cleanup (commit rt))),
             view := (view (commit rt))\<lparr>pollInterval := None\<rparr>,
             effect_deps := Some (gameId (view (commit rt)), status (view (commit rt)),
               pollInterval (view (commit rt))),
             effect_cleanup := None\<rparr>"
        using idle by (intro commit_stops_timer) (simp_all add: first Some)
      then have second: "view (commit (commit rt)) = view (commit rt)"
        "timers (commit (commit rt)) = timers (commit rt)"
        by (simp_all add: first run_cleanup_def)
      have "timers rt = [] \<Longrightarrow> timers (commit rt) = []"
        by (simp add: first Some run_cleanup_no_timers clearInterval_Nil)
      with second show ?thesis
        by simp
    qed
  next
    case False
    then have session: "truthy (gameId (view rt))" and ongoing: "status (view rt) = JStr ''ongoing''"
      by simp_all
    show ?thesis
    proof (cases "pollInterval (view rt)")
      case None
      from changed have entering:
        "effect_deps rt \<noteq> Some (gameId (view rt), status (view rt), None)"
        by (simp add: None)
      note first = commit_creates_timer [OF session ongoing None entering]
      have second: "commit (commit rt) =
          (commit rt)\<lparr>timers := clearInterval (next_timer rt) (timers (commit rt)),
             effect_deps := Some (gameId (view (commit rt)), status (view (commit rt)),
               Some (next_timer rt))\<rparr>"
        by (rule commit_clears_own_timer) (simp_all add: first session ongoing)
      have rendered: "view (commit rt) \<noteq> view rt"
        using pollInterval_update_differs [OF None] by (simp add: first)
      have settled: "view (commit (commit rt)) = view (commit rt)"
        by (simp add: second)
      have "timers (commit (commit rt)) = clearInterval (next_timer rt) (timers (run_cleanup rt))"
        by (simp add: second) (simp add: first clearInterval_append)
      then have "timers rt = [] \<Longrightarrow> timers (commit (commit rt)) = []"
        by (simp add: run_cleanup_no_timers clearInterval_Nil)
      with rendered settled show ?thesis
        by simp
    next
      case (Some h)
      from changed have entering:
        "effect_deps rt \<noteq> Some (gameId (view rt), status (view rt), Some h)"
        by (simp add: Some)
      note first = commit_keeps_handle [OF entering session ongoing Some]
      have second: "commit (commit rt) = commit rt"
        by (rule commit_same_deps) (simp add: first Some)
      have "timers rt = [] \<Longrightarrow> timers (commit rt) = []"
        by (simp add: first run_cleanup_no_timers)
      with second show ?thesis
        by simp
    qed
  qed
qed

lemma settle_leaves_no_timer:
  "(\<exists>rt'. settle 3 rt = Some rt')
   \<and> (timers rt = [] \<longrightarrow> (\<exists>rt'. settle 3 rt = Some rt' \<and> timers rt' = []))"
proof -
  have unfolded: "settle 3 rt =
      (if view (commit rt) = view rt then Some (commit rt) else Some (commit (commit rt)))"
    using commit_twice [of rt] by (simp add: numeral_3_eq_3 Let_def)
  show ?thesis
    using commit_twice [of rt] by (simp add: unfolded)
qed

lemma settle_entering_ongoing:
  assumes session: "truthy (gameId (view rt))"
    and ongoing: "status (view rt) = JStr ''ongoing''"
    and no_timer: "pollInterval (view rt) = None"
    and entering: "effect_deps rt \<noteq> Some (gameId (view rt), status (view rt), None)"
  shows "\<exists>rt'. settle 3 rt = Some rt'
     \<and> gameId (view rt') = gameId (view rt)
     \<and> status (view rt') = JStr ''ongoing''
     \<and> pollInterval (view rt') = Some (next_timer rt)
     \<and> timers rt' = clearInterval (next_timer rt) (timers (run_cleanup rt))
     \<and> next_timer rt \<notin> fst ` set (timers rt')"
proof -
  define rt1 where "rt1 = commit rt"
  define rt2 where "rt2 = commit rt1"
  have rt1: "rt1 =
     rt\<lparr>timers := timers (run_cleanup rt) @ [(next_timer rt, gameId (view rt))],
        next_timer := Suc (next_timer rt),
        view := (view rt)\<lparr>pollInterval := Some (next_timer rt)\<rparr>,
        effect_deps := Some (gameId (view rt), status (view rt), None),
        effect_cleanup := Some (next_timer rt)\<rparr>"
    unfolding rt1_def by (rule commit_creates_timer [OF session ongoing no_timer entering])
  have rt2: "rt2 =
     rt1\<lparr>timers := clearInterval (next_timer rt) (timers rt1),
         effect_deps := Some (gameId (view rt1), status (view rt1), Some (next_timer rt))\<rparr>"
    unfolding rt2_def
    by (rule commit_clears_own_timer) (simp_all add: rt1 session ongoing)
  have rendered: "view rt1 \<noteq> view rt"
    using pollInterval_update_differs [OF no_timer] by (simp add: rt1)
  have settled: "view rt2 = view rt1"
    by (simp add: rt2)
  have "settle 3 rt = Some rt2"
    using rendered settled
    by (simp add: numeral_3_eq_3 rt1_def [symmetric] rt2_def [symmetric] Let_def)
  moreover have "timers rt2 = clearInterval (next_timer rt) (timers (run_cleanup rt))"
    by (simp add: rt2 rt1 clearInterval_append)
  moreover have "view rt2 = (view rt)\<lparr>pollInterval := Some (next_timer rt)\<rparr>"
    by (simp add: rt2 rt1)
  ultimately show ?thesis
    using ongoing by (simp add: clearInterval_absent)
qed













































section \<open>The claims\<close>

subsection \<open>C1: loading and overlapping requests\<close>



subsection \<open>C2: terminal states\<close>



subsection \<open>C3: the outcomes of a move\<close>

text \<open>
  C3 fails on a body of the wrong shape that is accepted as it stands. With the move
  at (1,1) of the game \<^verbatim>\<open>g1\<close> in flight, the answer \<^verbatim>\<open>{valid: true, state: 5}\<close> with
  status 200 cannot be parsed into a game state, yet no error is set and board,
  current player, status and move count become \<^verbatim>\<open>undefined\<close>.
\<close>

theorem wrong_shape_move_is_applied:
  "ok 200
   \<and> error (handleCellClick_resume wrong_shape busy) = JStr []
   \<and> session (handleCellClick_resume wrong_shape busy)
        = (JStr ''g1'', JUndefined, JUndefined, JUndefined, JNull, JUndefined)
   \<and> session (handleCellClick_resume wrong_shape busy) \<noteq> session busy"
  by (simp add: wrong_shape_def handleCellClick_resume_def handleCellClick_try_def fetched_def
      ok_def nullish_def js_or_def session_def busy_eq playing_eq)

text \<open>
  C3 as the code has it. For every move submission, when the response is there: if the
  fetch rejects, the status is outside 200 to 299, the body is not JSON or the body is
  \<^verbatim>\<open>null\<close>, the error is set to a non-empty message and the session (game id, board,
  current player, status, winner, move count) is unchanged; if \<^verbatim>\<open>valid\<close> or
  \<^verbatim>\<open>state\<close> of the body is falsy, the error is set to \<^verbatim>\<open>data.error || 'Illegal move'\<close>,
  which is the server's reason when it gives one, and the session is unchanged; if
  \<^verbatim>\<open>valid\<close> and \<^verbatim>\<open>state\<close> are both truthy, whatever the shape of \<^verbatim>\<open>state\<close>, board,
  current player, status and move count are those of \<^verbatim>\<open>state\<close>, the winner is that of
  \<^verbatim>\<open>state\<close> or \<^verbatim>\<open>null\<close> when that is falsy, the game id stays and the error is empty.
  The setters of a branch run with no \<^verbatim>\<open>await\<close> between them, so the fields change in
  one step. In every case loading ends false and the timer handle is untouched.
\<close>

theorem handleCellClick_resume_outcomes:
  "error (handleCellClick_resume (NetworkError m) s) = message_or m ''Could not submit move''
   \<and> truthy (error (handleCellClick_resume (NetworkError m) s))
   \<and> session (handleCellClick_resume (NetworkError m) s) = session s
   \<and> (\<not> ok code \<longrightarrow>
        error (handleCellClick_resume (Http code b) s) = JStr (move_failed code)
        \<and> truthy (error (handleCellClick_resume (Http code b) s))
        \<and> session (handleCellClick_resume (Http code b) s) = session s)
   \<and> (ok code \<longrightarrow>
        error (handleCellClick_resume (Http code (NotJson m)) s)
          = message_or m ''Could not submit move''
        \<and> truthy (error (handleCellClick_resume (Http code (NotJson m)) s))
        \<and> session (handleCellClick_resume (Http code (NotJson m)) s) = session s)
   \<and> (ok code \<and> nullish data \<longrightarrow>
        error (handleCellClick_resume (Http code (Json data)) s)
          = JStr (type_error data ''valid'')
        \<and> truthy (error (handleCellClick_resume (Http code (Json data)) s))
        \<and> session (handleCellClick_resume (Http code (Json data)) s) = session s)
   \<and> (ok code \<and> \<not> nullish data
        \<and> \<not> (truthy (js_get data ''valid'') \<and> truthy (js_get data ''state'')) \<longrightarrow>
        error (handleCellClick_resume (Http code (Json data)) s)
          = js_or (js_get data ''error'') (JStr ''Illegal move'')
        \<and> (truthy (js_get data ''error'') \<longrightarrow>
             error (handleCellClick_resume (Http code (Json data)) s) = js_get data ''error'')
        \<and> truthy (error (handleCellClick_resume (Http code (Json data)) s))
        \<and> session (handleCellClick_resume (Http code (Json data)) s) = session s)
   \<and> (ok code \<and> \<not> nullish data
        \<and> truthy (js_get data ''valid'') \<and> truthy (js_get data ''state'') \<longrightarrow>
        session (handleCellClick_resume (Http code (Json data)) s)
          = (gameId s,
             js_get (js_get data ''state'') ''board'',
             js_get (js_get data ''state'') ''current_player'',
             js_get (js_get data ''state'') ''status'',
             js_or (js_get (js_get data ''state'') ''winner'') JNull,
             js_get (js_get data ''state'') ''moves'')
        \<and> error (handleCellClick_resume (Http code (Json data)) s) = JStr [])
   \<and> loading (handleCellClick_resume res s) = False
   \<and> pollInterval (handleCellClick_resume res s) = pollInterval s"
proof -
  have net: "handleCellClick_resume (NetworkError m) s =
      s\<lparr>error := message_or m ''Could not submit move'', loading := False\<rparr>"
    by (rule handleCellClick_resume_thrown) (rule fetched_NetworkError)
  have bad: "\<not> ok code \<Longrightarrow> handleCellClick_resume (Http code b) s =
      s\<lparr>error := message_or (move_failed code) ''Could not submit move'', loading := False\<rparr>"
    by (rule handleCellClick_resume_thrown) (rule fetched_not_ok)
  have unparsed: "ok code \<Longrightarrow> handleCellClick_resume (Http code (NotJson m)) s =
      s\<lparr>error := message_or m ''Could not submit move'', loading := False\<rparr>"
    by (rule handleCellClick_resume_thrown) (rule fetched_NotJson)
  have frame: "loading (handleCellClick_resume res s) = False
      \<and> pollInterval (handleCellClick_resume res s) = pollInterval s"
    by (simp add: handleCellClick_resume_def handleCellClick_try_def split: sum.split)
  show ?thesis
    using frame
    by (simp add: net bad unparsed handleCellClick_resume_nullish handleCellClick_resume_rejected
        handleCellClick_resume_accepted fetched_Json session_def message_or_truthy
        message_or_def move_failed_not_empty type_error_not_empty js_or_truthy)
       (simp add: js_or_def)
qed

text \<open>
  C3 on the game \<^verbatim>\<open>g1\<close> with a move in flight: a rejected fetch, a status 500, the
  answer \<^verbatim>\<open>{valid: false, error: "Illegal move"}\<close> and an accepted move.
\<close>

theorem handleCellClick_resume_outcomes_witness:
  "error (handleCellClick_resume (NetworkError ''Failed to fetch'') busy) = JStr ''Failed to fetch''
   \<and> session (handleCellClick_resume (NetworkError ''Failed to fetch'') busy) = session busy
   \<and> \<not> ok 500
   \<and> error (handleCellClick_resume (Http 500 (NotJson [])) busy) = JStr ''Move failed (500)''
   \<and> session (handleCellClick_resume (Http 500 (NotJson [])) busy) = session busy
   \<and> ok 200
   \<and> error (handleCellClick_resume illegal busy) = JStr ''Illegal move''
   \<and> session (handleCellClick_resume illegal busy) = session busy
   \<and> session (handleCellClick_resume moved_center busy)
        = (JStr ''g1'', JArr [row3 [] [] [], row3 [] ''X'' [], row3 [] [] []], JStr ''O'',
           JStr ''ongoing'', JNull, JNum (Fin 1))
   \<and> error (handleCellClick_resume moved_center busy) = JStr []"
proof -
  note net = handleCellClick_resume_outcomes
    [where m = "''Failed to fetch''" and s = busy and code = 500 and b = "NotJson []"]
  note rej = handleCellClick_resume_outcomes
    [where s = busy and code = 200
       and data = "JObj [(''valid'', JBool False), (''error'', JStr ''Illegal move'')]"]
  note acc = handleCellClick_resume_outcomes
    [where s = busy and code = 200
       and data = "JObj
         [(''valid'', JBool True),
          (''state'', JObj
             [(''board'', JArr [row3 [] [] [], row3 [] ''X'' [], row3 [] [] []]),
              (''current_player'', JStr ''O''),
              (''status'', JStr ''ongoing''),
              (''moves'', JNum (Fin 1))])]"]
  have codes: "\<not> ok 500" "ok 200"
    by (simp_all add: ok_def)
  show ?thesis
    using net rej acc codes
    by (simp add: illegal_def moved_center_def nullish_def js_or_def message_or_def
        move_failed_def decimal_500 busy_eq playing_eq session_def)
qed

subsection \<open>C4: the poll timer\<close>

text \<open>
  C4 fails: no timer is live while a session is present and ongoing. The commits that
  follow a change of state always settle within the fuel, and a component with no live
  timer settles with none, whatever its state. When it enters the condition of the
  claim with no timer handle (a game id is there, the status is ongoing, and the effect
  last ran on other dependencies), then in the settled state the game is still present
  and ongoing, \<^verbatim>\<open>pollInterval\<close> holds the id of the interval the effect created, and
  that interval is not live: storing the id changed the dependency \<^verbatim>\<open>pollInterval\<close>,
  so the next commit ran the cleanup \<^verbatim>\<open>clearInterval(interval)\<close> and, the handle being
  truthy, created no other. The live timers are the earlier ones less those the two
  cleanups cleared.
\<close>

theorem poll_timer_never_live:
  "(\<exists>rt'. settle 3 rt = Some rt' \<and> (timers rt = [] \<longrightarrow> timers rt' = []))
   \<and> (truthy (gameId (view rt)) \<and> status (view rt) = JStr ''ongoing''
        \<and> pollInterval (view rt) = None
        \<and> effect_deps rt \<noteq> Some (gameId (view rt), status (view rt), None) \<longrightarrow>
        (\<exists>rt'. settle 3 rt = Some rt'
           \<and> gameId (view rt') = gameId (view rt)
           \<and> status (view rt') = JStr ''ongoing''
           \<and> pollInterval (view rt') = Some (next_timer rt)
           \<and> timers rt' = clearInterval (next_timer rt) (timers (run_cleanup rt))
           \<and> next_timer rt \<notin> fst ` set (timers rt')))"
proof -
  obtain rt' where settled: "settle 3 rt = Some rt'"
    using settle_leaves_no_timer [of rt] by blast
  have "timers rt = [] \<longrightarrow> timers rt' = []"
    using settle_leaves_no_timer [of rt] settled by auto
  with settled show ?thesis
    using settle_entering_ongoing [of rt] by blast
qed

text \<open>
  C4 on mounting: the component mounts and its create request is answered by
  \<open>created_g1\<close>. The game \<^verbatim>\<open>g1\<close> is ongoing, \<^verbatim>\<open>pollInterval\<close> is 1, and no timer
  is live.
\<close>

theorem no_poll_timer_after_create:
  "\<exists>rt'. Option.bind mount (created created_g1) = Some rt'
     \<and> gameId (view rt') = JStr ''g1''
     \<and> status (view rt') = JStr ''ongoing''
     \<and> pollInterval (view rt') = Some 1
     \<and> timers rt' = []"
proof -
  define rt where "rt =
    \<lparr> view = startNewGame_resume created_g1 creating, timers = [], next_timer = 1,
      effect_deps = Some (JNull, JStr ''ongoing'', None), effect_cleanup = None \<rparr>"
  have v: "view rt = playing"
    by (simp add: rt_def playing_def create_g1_def creating_def)
  have "\<exists>rt'. settle 3 rt = Some rt'
     \<and> gameId (view rt') = gameId (view rt)
     \<and> status (view rt') = JStr ''ongoing''
     \<and> pollInterval (view rt') = Some (next_timer rt)
     \<and> timers rt' = clearInterval (next_timer rt) (timers (run_cleanup rt))
     \<and> next_timer rt \<notin> fst ` set (timers rt')"
    using poll_timer_never_live [of rt] by (simp add: v playing_eq) (simp add: rt_def)
  then obtain rt' where settled: "settle 3 rt = Some rt'"
    and kept: "gameId (view rt') = gameId (view rt)" "status (view rt') = JStr ''ongoing''"
    and handle: "pollInterval (view rt') = Some (next_timer rt)"
    and live: "timers rt' = clearInterval (next_timer rt) (timers (run_cleanup rt))"
    by blast
  have "Option.bind mount (created created_g1) = Some rt'"
    using settled by (simp add: mount_eq created_def rt_def)
  moreover have "timers rt' = []"
    using live by (simp add: rt_def run_cleanup_def clearInterval_def)
  moreover have "pollInterval (view rt') = Some 1"
    using handle by (simp add: rt_def)
  moreover have "gameId (view rt') = JStr ''g1''"
    using kept by (simp add: v playing_eq)
  ultimately show ?thesis
    using kept by blast
qed

subsection \<open>C5: clearing and setting the error\<close>



subsection \<open>C6: responses that are not results\<close>

text \<open>
  C6 fails on a JSON body of another shape. The create request is answered by
  \<^verbatim>\<open>{}\<close> with status 200: no error is set, and game id, board, current player and
  status become \<^verbatim>\<open>undefined\<close>.
\<close>

theorem json_of_another_shape_is_applied:
  "ok 200
   \<and> error (startNewGame_resume empty_object creating) = JStr []
   \<and> session (startNewGame_resume empty_object creating)
        = (JUndefined, JUndefined, JUndefined, JUndefined, JNull, JNum (Fin 0))
   \<and> session (startNewGame_resume empty_object creating) \<noteq> session creating"
  by (simp add: empty_object_def startNewGame_resume_def startNewGame_try_def fetched_def ok_def
      nullish_def js_or_def session_def creating_def startNewGame_start_def initial_state_def)

text \<open>
  C6 as the code has it. For every response to a create, a fetch or a move whose status
  is outside 200 to 299, or whose body is not JSON, or whose body is \<^verbatim>\<open>null\<close>, the
  error is set to a non-empty message and no field of the session is updated.
\<close>

theorem failed_response_sets_error_only:
  "\<not> ok code \<or> b = NotJson m \<or> b = Json JNull \<longrightarrow>
     truthy (error (startNewGame_resume (Http code b) s))
     \<and> session (startNewGame_resume (Http code b) s) = session s
     \<and> truthy (error (fetchGameState_resume (Http code b) s))
     \<and> session (fetchGameState_resume (Http code b) s) = session s
     \<and> truthy (error (handleCellClick_resume (Http code b) s))
     \<and> session (handleCellClick_resume (Http code b) s) = session s"
proof (cases "ok code")
  case False
  then show ?thesis
    by (simp add: startNewGame_resume_thrown fetchGameState_resume_thrown
        handleCellClick_resume_thrown fetched_not_ok message_or_truthy session_def)
next
  case True
  then show ?thesis
    by (auto simp add: startNewGame_resume_thrown fetchGameState_resume_thrown
        handleCellClick_resume_thrown fetched_NotJson startNewGame_resume_nullish
        fetchGameState_resume_nullish handleCellClick_resume_nullish fetched_Json nullish_JNull
        message_or_truthy type_error_not_empty session_def)
qed

text \<open>
  C6 as the code has it: a create answered with status 500, a fetch whose body is not
  JSON, a move whose body is \<^verbatim>\<open>null\<close>.
\<close>

theorem failed_response_sets_error_only_witness:
  "\<not> ok 500
   \<and> truthy (error (startNewGame_resume (Http 500 (Json JNull)) creating))
   \<and> session (startNewGame_resume (Http 500 (Json JNull)) creating) = session creating
   \<and> ok 200
   \<and> truthy (error (fetchGameState_resume (Http 200 (NotJson ''Unexpected token'')) playing))
   \<and> session (fetchGameState_resume (Http 200 (NotJson ''Unexpected token'')) playing)
        = session playing
   \<and> truthy (error (handleCellClick_resume null_body busy))
   \<and> session (handleCellClick_resume null_body busy) = session busy"
  using failed_response_sets_error_only [of 500 "Json JNull" "[]" creating]
    failed_response_sets_error_only [of 200 "NotJson ''Unexpected token''" "''Unexpected token''" playing]
    failed_response_sets_error_only [of 200 "Json JNull" "[]" busy]
  by (simp add: ok_def null_body_def)

subsection \<open>C7: create, then a move in the centre\<close>

text \<open>
  C7. New Game is answered by
  \<^verbatim>\<open>{id: "g1", board: 3x3 empty, current_player: "X", status: "ongoing", moves: 0}\<close>,
  then a move at (1,1) is answered by
  \<^verbatim>\<open>{valid: true, state: {board with "X" in the centre, current_player: "O", status: "ongoing", moves: 1}}\<close>.
  Whatever the state New Game was called in, the click dispatches the move for game
  \<^verbatim>\<open>g1\<close>, and in the resulting state the centre cell is \<^verbatim>\<open>X\<close>, the current player is
  \<^verbatim>\<open>O\<close> and the move count is 1 (the game id is still \<^verbatim>\<open>g1\<close>, the status ongoing, no
  error, not loading).
\<close>

theorem create_then_move_center:
  "snd (handleCellClick_start 1 1 (create_g1 s)) = Some (PostMove (JStr ''g1'') 1 1)
   \<and> cell_at (board (create_then_move s)) 1 1 = Some (JStr ''X'')
   \<and> currentPlayer (create_then_move s) = JStr ''O''
   \<and> moves (create_then_move s) = JNum (Fin 1)
   \<and> gameId (create_then_move s) = JStr ''g1''
   \<and> status (create_then_move s) = JStr ''ongoing''
   \<and> error (create_then_move s) = JStr []
   \<and> loading (create_then_move s) = False"
  by (simp add: create_then_move_def create_g1_eq handleCellClick_start_def
      handleCellClick_resume_def handleCellClick_try_def moved_center_def fetched_def ok_def
      nullish_def js_or_def cell_at_def row3_def)

text \<open>
  The run of C7 from the initial state of the component.
\<close>

theorem create_then_move_center_initial:
  "snd (handleCellClick_start 1 1 (create_g1 initial_state)) = Some (PostMove (JStr ''g1'') 1 1)
   \<and> cell_at (board (create_then_move initial_state)) 1 1 = Some (JStr ''X'')
   \<and> currentPlayer (create_then_move initial_state) = JStr ''O''
   \<and> moves (create_then_move initial_state) = JNum (Fin 1)"
  using create_then_move_center [of initial_state] by simp

subsection \<open>C8: a fetch whose body has no board\<close>

text \<open>
  C8 fails on the body \<^verbatim>\<open>null\<close>, which has no board either: reading \<^verbatim>\<open>data.board\<close>
  throws and the error is set to the TypeError's message.
\<close>

theorem fetch_of_null_sets_error:
  "ok 200
   \<and> \<not> truthy (js_get JNull ''board'')
   \<and> error (fetchGameState_resume null_body playing)
        = JStr (type_error JNull ''board'')
   \<and> error (fetchGameState_resume null_body playing) \<noteq> error playing"
  by (simp add: null_body_def fetchGameState_resume_nullish fetched_Json nullish_JNull ok_def
      playing_eq type_error_not_empty)

text \<open>
  C8 as the code has it. For every fetch response with a status in 200 to 299 whose
  JSON body is not \<^verbatim>\<open>null\<close> and has no truthy \<^verbatim>\<open>board\<close>, the state is left as it was
  but for loading, which ends false: session and error are unchanged.
\<close>

theorem fetch_without_board_is_silent:
  "ok code \<Longrightarrow> \<not> nullish data \<Longrightarrow> \<not> truthy (js_get data ''board'') \<Longrightarrow>
   fetchGameState_resume (Http code (Json data)) s = s\<lparr>loading := False\<rparr>
   \<and> session (fetchGameState_resume (Http code (Json data)) s) = session s
   \<and> error (fetchGameState_resume (Http code (Json data)) s) = error s
   \<and> loading (fetchGameState_resume (Http code (Json data)) s) = False"
  by (simp add: fetchGameState_resume_no_board fetched_Json session_def)

text \<open>
  C8 as the code has it: the fetch is answered by \<^verbatim>\<open>{}\<close> while the error
  \<^verbatim>\<open>Illegal move\<close> shows.
\<close>

theorem fetch_without_board_is_silent_witness:
  "ok 200
   \<and> \<not> nullish (JObj [])
   \<and> \<not> truthy (js_get (JObj []) ''board'')
   \<and> fetchGameState_resume empty_object (rejected\<lparr>loading := True\<rparr>) = rejected
   \<and> error (fetchGameState_resume empty_object (rejected\<lparr>loading := True\<rparr>))
        = JStr ''Illegal move''"
proof -
  have h: "ok 200" "\<not> nullish (JObj [])" "\<not> truthy (js_get (JObj []) ''board'')"
    by (simp_all add: ok_def nullish_def)
  show ?thesis
    using h fetch_without_board_is_silent [OF h, of "rejected\<lparr>loading := True\<rparr>"]
    by (simp add: empty_object_def rejected_eq playing_eq)
qed

subsection \<open>C9: the initial state\<close>

text \<open>
  C9. In the initial state the board is a 3x3 grid of empty cells, the current player is
  \<^verbatim>\<open>X\<close>, the status is ongoing, the winner is \<^verbatim>\<open>null\<close>, the move count is 0, the error
  is empty and the game id is \<^verbatim>\<open>null\<close>; the same holds while the create request of the
  mount effect is in flight. In both states a move submission for any cell is a no-op:
  \<^verbatim>\<open>handleCellClick\<close> returns before dispatching and changes no field, although the
  status is ongoing.
\<close>

theorem initial_state_moves_are_noops:
  "session initial_state =
     (JNull, JArr [row3 [] [] [], row3 [] [] [], row3 [] [] []], JStr ''X'', JStr ''ongoing'',
      JNull, JNum (Fin 0))
   \<and> error initial_state = JStr []
   \<and> session creating = session initial_state
   \<and> error creating = JStr []
   \<and> handleCellClick_start r c initial_state = (initial_state, None)
   \<and> click_cell r c initial_state = (initial_state, None)
   \<and> handleCellClick_start r c creating = (creating, None)
   \<and> click_cell r c creating = (creating, None)"
  by (simp add: session_def initial_state_def creating_def startNewGame_start_def
      handleCellClick_start_def click_cell_def empty_row_def row3_def split: option.split)

text \<open>
  C9 at the centre cell.
\<close>

theorem initial_state_center_click_is_noop:
  "gameId initial_state = JNull
   \<and> status initial_state = JStr ''ongoing''
   \<and> handleCellClick_start 1 1 initial_state = (initial_state, None)
   \<and> click_cell 1 1 creating = (creating, None)"
  using initial_state_moves_are_noops [of 1 1] by (simp add: session_def)

subsection \<open>C10: the default message of a rejected move\<close>

text \<open>
  C10 fails on the body \<^verbatim>\<open>null\<close>. With status 200 it is a response that is not
  accepted, has no state and carries no error string; reading \<^verbatim>\<open>data.valid\<close> throws and
  the error is set to the TypeError's message, not to \<^verbatim>\<open>Illegal move\<close>.
\<close>

theorem move_answered_null_shows_type_error:
  "ok 200
   \<and> error (handleCellClick_resume null_body busy) = JStr (type_error JNull ''valid'')
   \<and> error (handleCellClick_resume null_body busy) \<noteq> JStr ''Illegal move''"
  by (simp add: null_body_def handleCellClick_resume_nullish fetched_Json nullish_JNull ok_def
      type_error_def)

text \<open>
  C10 as the code has it. For every move response with a status in 200 to 299 whose
  JSON body is not \<^verbatim>\<open>null\<close> and is not accepted (\<^verbatim>\<open>valid\<close> or \<^verbatim>\<open>state\<close> falsy): if
  the body's \<^verbatim>\<open>error\<close> is falsy, which for an \<^verbatim>\<open>error\<close> that is a string or absent
  means that the body carries no non-empty error string, the error is set to
  \<^verbatim>\<open>Illegal move\<close>.
\<close>

theorem rejected_without_error_is_illegal_move:
  "ok code \<Longrightarrow> \<not> nullish data \<Longrightarrow>
   \<not> (truthy (js_get data ''valid'') \<and> truthy (js_get data ''state'')) \<Longrightarrow>
   \<not> truthy (js_get data ''error'') \<Longrightarrow>
   error (handleCellClick_resume (Http code (Json data)) s) = JStr ''Illegal move''"
  by (simp add: handleCellClick_resume_rejected fetched_Json js_or_def)

text \<open>
  C10 as the code has it: \<^verbatim>\<open>{valid: false}\<close>, and \<^verbatim>\<open>{valid: true, error: ""}\<close>
  which has no state.
\<close>

theorem rejected_without_error_is_illegal_move_witness:
  "ok 200
   \<and> \<not> nullish (JObj [(''valid'', JBool False)])
   \<and> \<not> truthy (js_get (JObj [(''valid'', JBool False)]) ''valid'')
   \<and> \<not> truthy (js_get (JObj [(''valid'', JBool False)]) ''error'')
   \<and> \<not> truthy (js_get (JObj [(''valid'', JBool True), (''error'', JStr [])]) ''state'')
   \<and> \<not> truthy (js_get (JObj [(''valid'', JBool True), (''error'', JStr [])]) ''error'')
   \<and> error (handleCellClick_resume (Http 200 (Json (JObj [(''valid'', JBool False)]))) busy)
        = JStr ''Illegal move''
   \<and> error (handleCellClick_resume
        (Http 200 (Json (JObj [(''valid'', JBool True), (''error'', JStr [])]))) busy)
        = JStr ''Illegal move''"
  using rejected_without_error_is_illegal_move [of 200 "JObj [(''valid'', JBool False)]" busy]
    rejected_without_error_is_illegal_move
      [of 200 "JObj [(''valid'', JBool True), (''error'', JStr [])]" busy]
  by (simp add: ok_def nullish_def)

end
